theory Spec2Isabelle
  imports Complex_Main "HOL-Library.Char_ord" "HOL-Library.List_Lexorder"
begin

section \<open>The coffee and health dashboard (coffee2.py)\<close>

text \<open>
  The script loads one CSV file into a pandas DataFrame, filters it by the sidebar
  controls, derives a numeric stress index and renders five tabs of summaries.

  Conventions of the embedding:
  \<^item> a DataFrame is the list of its rows in index order, a Series is a list of cells;
  \<^item> a float64 is modelled by a real number and float64 arithmetic by exact arithmetic,
    a missing cell (NaN) is \<open>None\<close>; the rounding error of float64 arithmetic is
    outside the model, and so is the side to which \<open>round\<close> sends a value that lies
    halfway between two results, which depends on that error;
  \<^item> the columns read from the CSV file hold no missing cell; the only columns that
    can hold one are the derived columns \<open>Stress_Index\<close> and \<open>Activity_Bins\<close>;
  \<^item> the pandas calls (\<open>isin\<close>, boolean indexing, \<open>map\<close>, \<open>mean\<close>, \<open>groupby\<close>,
    \<open>cut\<close>, \<open>corr\<close>) are library code; each is modelled by a function of the same
    name that computes what the library documents for the arguments the script passes.
\<close>

subsection \<open>Data model\<close>

record row =
  Country :: string
  Gender :: string
  Age :: int
  Coffee_Intake :: real
  Sleep_Hours :: real
  Stress_Level :: string
  Heart_Rate :: real
  BMI :: real
  Occupation :: string
  Smoking :: string
  Alcohol_Consumption :: string
  Physical_Activity_Hours :: real

text \<open>
  A DataFrame of the script: the CSV columns row by row, and the two columns the script
  adds later, absent (\<open>None\<close>) until the assignment that creates them.
\<close>

record dataframe =
  rows :: "row list"
  Stress_Index :: "real option list option"
  Activity_Bins :: "string option list option"

definition DataFrame :: "row list \<Rightarrow> dataframe" where
  "DataFrame rs = \<lparr>rows = rs, Stress_Index = None, Activity_Bins = None\<rparr>"

datatype error = KeyError string | NameError string | ValueError string

subsection \<open>Filtering (lines 34-37)\<close>

definition isin :: "'a list \<Rightarrow> 'a list \<Rightarrow> bool list" where
  "isin col vals = map (\<lambda>v. v \<in> set vals) col"

definition ge_mask :: "int list \<Rightarrow> int \<Rightarrow> bool list" where
  "ge_mask col a = map (\<lambda>v. a \<le> v) col"

definition le_mask :: "int list \<Rightarrow> int \<Rightarrow> bool list" where
  "le_mask col b = map (\<lambda>v. v \<le> b) col"

definition mask_and :: "bool list \<Rightarrow> bool list \<Rightarrow> bool list" where
  "mask_and m1 m2 = map (\<lambda>(p, q). p \<and> q) (zip m1 m2)"

text \<open>Boolean indexing \<open>df[mask]\<close>: the rows at the positions where the mask is true.\<close>

definition getitem_mask :: "'a list \<Rightarrow> bool list \<Rightarrow> 'a list" where
  "getitem_mask t m = map fst (filter snd (zip t m))"

definition filtered_data :: "row list \<Rightarrow> string list \<Rightarrow> string list \<Rightarrow> int \<times> int \<Rightarrow> row list" where
  "filtered_data data countries genders age_range =
     getitem_mask data
       (mask_and
          (mask_and
             (mask_and (isin (map Country data) countries) (isin (map Gender data) genders))
             (ge_mask (map Age data) (fst age_range)))
          (le_mask (map Age data) (snd age_range)))"

text \<open>\<open>DataFrame.empty\<close>: the frame has no row.\<close>

definition empty :: "row list \<Rightarrow> bool" where
  "empty t = (t = [])"

subsection \<open>Stress index (lines 45-47)\<close>

definition stress_level_mapping :: "string \<rightharpoonup> int" where
  "stress_level_mapping = [''Low'' \<mapsto> 1, ''Medium'' \<mapsto> 2, ''High'' \<mapsto> 3]"

text \<open>\<open>Series.map(dict)\<close>: a value that is no key of the dict becomes a missing cell.\<close>

definition map_dict :: "('a \<rightharpoonup> int) \<Rightarrow> 'a list \<Rightarrow> real option list" where
  "map_dict d col = map (\<lambda>v. map_option real_of_int (d v)) col"

text \<open>
  \<open>copy()\<close> gives a frame with the same content; that it is a new object is told by
  the store further down.
\<close>

definition copy :: "dataframe \<Rightarrow> dataframe" where
  "copy df = df"

definition set_Stress_Index :: "dataframe \<Rightarrow> dataframe" where
  "set_Stress_Index df =
     df\<lparr>Stress_Index := Some (map_dict stress_level_mapping (map Stress_Level (rows df)))\<rparr>"

subsection \<open>KPI means (lines 60-63)\<close>

definition dropna :: "'a option list \<Rightarrow> 'a list" where
  "dropna s = List.map_filter (\<lambda>c. c) s"

text \<open>\<open>Series.mean()\<close> skips the missing cells; with no cell left the mean is missing.\<close>

definition mean :: "real option list \<Rightarrow> real option" where
  "mean s = (let v = dropna s in if v = [] then None else Some (sum_list v / real (length v)))"

text \<open>
  \<open>round(x, 2)\<close> on a float: the multiple of 0.01 nearest to \<open>x\<close>. When \<open>x\<close> lies
  halfway between two multiples, the float64 behind \<open>x\<close> lies a little to one side or the
  other and the call follows it (the mean 2.325 is shown as 2.33, the mean 0.125 as
  0.12), so the model gives both neighbours: \<open>round_to_2 x\<close> is the set of values the
  call can return for a float that stands for \<open>x\<close>. A missing value stays missing.
\<close>

definition round_to_2 :: "real \<Rightarrow> real set" where
  "round_to_2 x =
     (let f = \<lfloor>x * 100\<rfloor>; d = x * 100 - of_int f
      in if d < 1 / 2 then {of_int f / 100}
         else if 1 / 2 < d then {of_int (f + 1) / 100}
         else {of_int f / 100, of_int (f + 1) / 100})"

definition round2 :: "real option \<Rightarrow> real option set" where
  "round2 v = (case v of None \<Rightarrow> {None} | Some x \<Rightarrow> Some ` round_to_2 x)"

definition numeric :: "(row \<Rightarrow> real) \<Rightarrow> dataframe \<Rightarrow> real option list" where
  "numeric c df = map (\<lambda>r. Some (c r)) (rows df)"

definition kpi_Coffee_Intake :: "dataframe \<Rightarrow> real option set" where
  "kpi_Coffee_Intake df = round2 (mean (numeric Coffee_Intake df))"

definition kpi_Sleep_Hours :: "dataframe \<Rightarrow> real option set" where
  "kpi_Sleep_Hours df = round2 (mean (numeric Sleep_Hours df))"

definition kpi_Stress_Index :: "dataframe \<Rightarrow> error + real option set" where
  "kpi_Stress_Index df =
     (case Stress_Index df of
        None \<Rightarrow> Inl (KeyError ''Stress_Index'')
      | Some s \<Rightarrow> Inr (round2 (mean s)))"

definition kpi_BMI :: "dataframe \<Rightarrow> real option set" where
  "kpi_BMI df = round2 (mean (numeric BMI df))"

subsection \<open>Group-by means (lines 105-109 and 221)\<close>

text \<open>
  \<open>groupby(key)\<close> with its default \<open>sort=True\<close>: the rows are collected per key in the
  order they are met, and the groups are kept in ascending key order.
\<close>

fun insert_group :: "'k::linorder \<Rightarrow> 'v \<Rightarrow> ('k \<times> 'v list) list \<Rightarrow> ('k \<times> 'v list) list" where
  "insert_group k v [] = [(k, [v])]"
| "insert_group k v ((k', vs) # gs) =
     (if k = k' then (k', vs @ [v]) # gs
      else if k < k' then (k, [v]) # (k', vs) # gs
      else (k', vs) # insert_group k v gs)"

definition groupby :: "('r \<Rightarrow> 'k::linorder) \<Rightarrow> 'r list \<Rightarrow> ('k \<times> 'r list) list" where
  "groupby key t = foldl (\<lambda>gs r. insert_group (key r) r gs) [] t"

definition country_avg :: "dataframe \<Rightarrow> (string \<times> real option) list" where
  "country_avg df =
     map (\<lambda>(k, g). (k, mean (map (\<lambda>r. Some (Coffee_Intake r)) g))) (groupby Country (rows df))"

definition data_list :: "(string \<times> real option) list \<Rightarrow> (string \<times> real option set) list" where
  "data_list avg = map (\<lambda>(name, v). (name, round2 v)) avg"

text \<open>The age trend: one row (age, mean coffee intake, mean sleep hours) per group.\<close>

definition age_trend :: "dataframe \<Rightarrow> (int \<times> real option \<times> real option) list" where
  "age_trend df =
     map (\<lambda>(k, g). (k, mean (map (\<lambda>r. Some (Coffee_Intake r)) g),
                        mean (map (\<lambda>r. Some (Sleep_Hours r)) g)))
       (groupby Age (rows df))"

subsection \<open>Activity bins (lines 186-192)\<close>

text \<open>
  \<open>pd.cut(x, bins, labels)\<close> with its defaults \<open>right=True\<close> and
  \<open>include_lowest=False\<close>: the position of \<open>x\<close> among the breakpoints is
  \<open>bins.searchsorted(x, side='left')\<close>, the number of breakpoints below \<open>x\<close>; position
  0 and position \<open>len(bins)\<close> are outside every bin, position \<open>i\<close> takes label
  \<open>i - 1\<close>.
\<close>

fun searchsorted_left :: "real list \<Rightarrow> real \<Rightarrow> nat" where
  "searchsorted_left [] x = 0"
| "searchsorted_left (b # bs) x = (if b < x then Suc (searchsorted_left bs x) else 0)"

definition cut :: "real list \<Rightarrow> string list \<Rightarrow> real \<Rightarrow> string option" where
  "cut bins labels x =
     (let i = searchsorted_left bins x
      in if i = 0 \<or> i = length bins then None else Some (labels ! (i - 1)))"

definition activity_bin :: "real \<Rightarrow> string option" where
  "activity_bin hours = cut [0, 2, 4, 6, 24] [''0-2h'', ''2-4h'', ''4-6h'', ''6h+''] hours"

definition set_Activity_Bins :: "dataframe \<Rightarrow> dataframe" where
  "set_Activity_Bins df =
     df\<lparr>Activity_Bins := Some (map (\<lambda>r. activity_bin (Physical_Activity_Hours r)) (rows df))\<rparr>"

subsection \<open>Correlation matrix (line 215)\<close>

text \<open>
  \<open>DataFrame.corr()\<close>: Pearson's coefficient of every pair of columns, over the rows
  where both cells are present; the entry is missing when no such row exists or when one
  of the two columns does not vary on them.
\<close>

fun valid_pairs :: "real option list \<Rightarrow> real option list \<Rightarrow> (real \<times> real) list" where
  "valid_pairs (Some x # xs) (Some y # ys) = (x, y) # valid_pairs xs ys"
| "valid_pairs (x # xs) (y # ys) = valid_pairs xs ys"
| "valid_pairs xs ys = []"

definition avg :: "real list \<Rightarrow> real" where
  "avg v = sum_list v / real (length v)"

definition codev :: "(real \<times> real) list \<Rightarrow> real" where
  "codev ps =
     (let mx = avg (map fst ps); my = avg (map snd ps)
      in sum_list (map (\<lambda>(x, y). (x - mx) * (y - my)) ps))"

definition ssqdm :: "real list \<Rightarrow> real" where
  "ssqdm v = (let m = avg v in sum_list (map (\<lambda>x. (x - m) * (x - m)) v))"

definition pearson :: "real option list \<Rightarrow> real option list \<Rightarrow> real option" where
  "pearson xs ys =
     (let ps = valid_pairs xs ys
      in if ps = [] then None
         else let divisor = sqrt (ssqdm (map fst ps) * ssqdm (map snd ps))
              in if divisor = 0 then None else Some (codev ps / divisor))"

definition corr_columns :: "dataframe \<Rightarrow> error + real option list list" where
  "corr_columns df =
     (case Stress_Index df of
        None \<Rightarrow> Inl (KeyError ''Stress_Index'')
      | Some s \<Rightarrow>
          Inr [numeric Coffee_Intake df, numeric Sleep_Hours df, s,
               numeric Heart_Rate df, numeric BMI df])"

definition corr :: "dataframe \<Rightarrow> error + real option list list" where
  "corr df =
     (case corr_columns df of
        Inl e \<Rightarrow> Inl e
      | Inr cols \<Rightarrow> Inr (map (\<lambda>c. map (\<lambda>d. pearson c d) cols) cols))"

text \<open>A column varies when two of its present cells differ.\<close>

definition non_constant :: "real option list \<Rightarrow> bool" where
  "non_constant c = (\<exists>x \<in> set (dropna c). \<exists>y \<in> set (dropna c). x \<noteq> y)"

subsection \<open>One run of the script\<close>

text \<open>
  What one run leaves on the page, from line 34 on: the values the sidebar widgets of
  lines 30-32 returned are arguments. A view that the run did not compute is \<open>None\<close>;
  a rounded number is the set of values \<open>round\<close> can give.
  With no row selected the script shows the warning of line 41 and \<open>st.stop()\<close> ends
  the run. Otherwise the tabs are built in order. The second tab draws a scatter plot
  with the age as marker size (line 82), which the plotting library refuses with a
  ValueError when an age is negative. The third tab calls \<open>st_echarts\<close> (line 133), a
  name the script neither imports nor defines, so the run ends there with a NameError
  and the tabs after it (lines 137-224) are not built.
\<close>

datatype notice = No_data_warning

record page =
  notice :: "notice option"
  kpis :: "(real option set \<times> real option set \<times> real option set \<times> real option set) option"
  choropleth :: "(string \<times> real option set) list option"
  correlation :: "real option list list option"
  trend :: "(int \<times> real option \<times> real option) list option"
  raised :: "error option"

definition blank_page :: page where
  "blank_page =
     \<lparr>notice = None, kpis = None, choropleth = None, correlation = None, trend = None,
      raised = None\<rparr>"

definition run :: "row list \<Rightarrow> string list \<Rightarrow> string list \<Rightarrow> int \<times> int \<Rightarrow> page" where
  "run data countries genders age_range =
     (let fd = filtered_data data countries genders age_range
      in if empty fd then blank_page\<lparr>notice := Some No_data_warning\<rparr>
         else
           let df = set_Stress_Index (copy (DataFrame fd))
           in case kpi_Stress_Index df of
                Inl e \<Rightarrow> blank_page\<lparr>raised := Some e\<rparr>
              | Inr si \<Rightarrow>
                  let tab1 =
                    blank_page
                      \<lparr>kpis := Some (kpi_Coffee_Intake df, kpi_Sleep_Hours df, si, kpi_BMI df)\<rparr>
                  in if list_ex (\<lambda>r. Age r < 0) (rows df)
                     then tab1\<lparr>raised := Some (ValueError ''size'')\<rparr>
                     else tab1\<lparr>choropleth := Some (data_list (country_avg df)),
                                raised := Some (NameError ''st_echarts'')\<rparr>)"

subsection \<open>The objects behind the variables\<close>

text \<open>
  DataFrames are mutable objects and variables hold references to them. The store maps
  an object identity to the frame it holds; \<open>var_data\<close> and \<open>var_filtered_data\<close> are the
  two module variables, the second unbound until line 34. Boolean indexing and
  \<open>copy()\<close> build a new object; a column assignment changes the object in place.
  The frame bound to \<open>data\<close> holds the CSV columns only, so does a selection of it.
\<close>

record state =
  heap :: "nat \<Rightarrow> dataframe option"
  fresh :: nat
  var_data :: nat
  var_filtered_data :: "nat option"

definition load_data :: "row list \<Rightarrow> state" where
  "load_data csv =
     \<lparr>heap = (\<lambda>_. None)(0 := Some (DataFrame csv)), fresh = 1, var_data = 0,
      var_filtered_data = None\<rparr>"

datatype stmt =
    Filter "string list" "string list" "int \<times> int"
  | Copy
  | Set_Stress_Index
  | Set_Activity_Bins
  | Kpi
  | Country_avg
  | Corr
  | Age_trend

definition bind_new :: "dataframe \<Rightarrow> state \<Rightarrow> state" where
  "bind_new df s =
     s\<lparr>heap := (heap s)(fresh s := Some df), fresh := Suc (fresh s),
       var_filtered_data := Some (fresh s)\<rparr>"

definition with_filtered :: "state \<Rightarrow> (nat \<Rightarrow> dataframe \<Rightarrow> state) \<Rightarrow> error + state" where
  "with_filtered s f =
     (case var_filtered_data s of
        None \<Rightarrow> Inl (NameError ''filtered_data'')
      | Some r \<Rightarrow>
          (case heap s r of
             None \<Rightarrow> Inl (NameError ''filtered_data'')
           | Some df \<Rightarrow> Inr (f r df)))"

fun exec :: "stmt \<Rightarrow> state \<Rightarrow> error + state" where
  "exec (Filter countries genders age_range) s =
     (case heap s (var_data s) of
        None \<Rightarrow> Inl (NameError ''data'')
      | Some d \<Rightarrow> Inr (bind_new (DataFrame (filtered_data (rows d) countries genders age_range)) s))"
| "exec Copy s = with_filtered s (\<lambda>r df. bind_new (copy df) s)"
| "exec Set_Stress_Index s =
     with_filtered s (\<lambda>r df. s\<lparr>heap := (heap s)(r := Some (set_Stress_Index df))\<rparr>)"
| "exec Set_Activity_Bins s =
     with_filtered s (\<lambda>r df. s\<lparr>heap := (heap s)(r := Some (set_Activity_Bins df))\<rparr>)"
| "exec Kpi s = with_filtered s (\<lambda>r df. s)"
| "exec Country_avg s = with_filtered s (\<lambda>r df. s)"
| "exec Corr s = with_filtered s (\<lambda>r df. s)"
| "exec Age_trend s = with_filtered s (\<lambda>r df. s)"

text \<open>A sequence of statements runs until one raises; the state reached is returned.\<close>

fun exec_all :: "stmt list \<Rightarrow> state \<Rightarrow> state \<times> error option" where
  "exec_all [] s = (s, None)"
| "exec_all (c # cs) s =
     (case exec c s of Inl e \<Rightarrow> (s, Some e) | Inr s' \<Rightarrow> exec_all cs s')"

text \<open>The source frame is intact: \<open>data\<close> still refers to the frame that was loaded.\<close>

definition source_kept :: "row list \<Rightarrow> state \<Rightarrow> bool" where
  "source_kept csv s \<longleftrightarrow>
     heap s (var_data s) = Some (DataFrame csv) \<and> var_data s = 0 \<and> var_data s < fresh s \<and>
     var_filtered_data s \<noteq> Some (var_data s)"

subsection \<open>Reference computations\<close>

text \<open>
  The naive mean the KPI is checked against: a running total of the coffee intake over
  the rows, divided by the number of rows.
\<close>

definition naive_mean_Coffee_Intake :: "row list \<Rightarrow> real" where
  "naive_mean_Coffee_Intake t =
     foldl (\<lambda>total r. total + Coffee_Intake r) 0 t / real (length t)"

text \<open>
  The rows with a recognised stress level, and the naive mean of their indices
  (Low is 1, Medium is 2, High is 3): a running total over those rows, divided by their
  number.
\<close>

definition recognized :: "row list \<Rightarrow> row list" where
  "recognized t = filter (\<lambda>r. Stress_Level r \<in> {''Low'', ''Medium'', ''High''}) t"

definition level_index :: "string \<Rightarrow> real" where
  "level_index l = (if l = ''Low'' then 1 else if l = ''Medium'' then 2 else 3)"

definition naive_mean_Stress_Index :: "row list \<Rightarrow> real" where
  "naive_mean_Stress_Index t =
     foldl (\<lambda>total r. total + level_index (Stress_Level r)) 0 (recognized t) /
     real (length (recognized t))"

subsection \<open>Sample tables\<close>

text \<open>The three-row scenario of the specification, with the other columns filled in.\<close>

definition scenario :: "row list" where
  "scenario =
     [\<lparr>Country = ''US'', Gender = ''Male'', Age = 25, Coffee_Intake = 2, Sleep_Hours = 8,
       Stress_Level = ''Low'', Heart_Rate = 60, BMI = 22, Occupation = ''Office'',
       Smoking = ''0'', Alcohol_Consumption = ''0'', Physical_Activity_Hours = 5\<rparr>,
      \<lparr>Country = ''US'', Gender = ''Female'', Age = 70, Coffee_Intake = 4, Sleep_Hours = 6,
       Stress_Level = ''High'', Heart_Rate = 80, BMI = 27, Occupation = ''Other'',
       Smoking = ''1'', Alcohol_Consumption = ''0'', Physical_Activity_Hours = 1\<rparr>,
      \<lparr>Country = ''DE'', Gender = ''Male'', Age = 40, Coffee_Intake = 3, Sleep_Hours = 7,
       Stress_Level = ''Medium'', Heart_Rate = 70, BMI = 24, Occupation = ''Student'',
       Smoking = ''0'', Alcohol_Consumption = ''1'', Physical_Activity_Hours = 3\<rparr>]"

definition person :: "int \<Rightarrow> real \<Rightarrow> string \<Rightarrow> row" where
  "person a cups level =
     \<lparr>Country = ''US'', Gender = ''Male'', Age = a, Coffee_Intake = cups, Sleep_Hours = 7,
      Stress_Level = level, Heart_Rate = 70, BMI = 24, Occupation = ''Office'',
      Smoking = ''0'', Alcohol_Consumption = ''0'', Physical_Activity_Hours = 3\<rparr>"

definition thirds :: "row list" where
  "thirds = [person 30 1 ''Low'', person 31 1 ''Low'', person 32 2 ''Medium'']"

definition mixed :: "row list" where
  "mixed = [person 30 1 ''Low'', person 31 1 ''Low'', person 32 2 ''Medium'',
            person 33 5 ''Extreme'']"

text \<open>Two rows whose mean coffee intake, 1.225, lies halfway between 1.22 and 1.23.\<close>

definition halfway :: "row list" where
  "halfway = [person 30 (122 / 100) ''Medium'', person 31 (123 / 100) ''High'']"

section \<open>Filtering\<close>

lemma mask_and_map: "mask_and (map P t) (map Q t) = map (\<lambda>x. P x \<and> Q x) t"
  by (induction t) (simp_all add: mask_and_def)

lemma getitem_mask_map: "getitem_mask t (map P t) = filter P t"
  by (induction t) (simp_all add: getitem_mask_def)

lemma isin_map: "isin (map f t) vals = map (\<lambda>r. f r \<in> set vals) t"
  by (simp add: isin_def)

lemma filtered_data_filter:
  "filtered_data data countries genders age_range =
     filter (\<lambda>r. Country r \<in> set countries \<and> Gender r \<in> set genders \<and>
                 fst age_range \<le> Age r \<and> Age r \<le> snd age_range) data"
  by (simp add: filtered_data_def isin_map ge_mask_def le_mask_def mask_and_map
      getitem_mask_map conj_assoc)

text \<open>
  Claim C1. For every table, every two selector lists and every age range \<open>(a, b)\<close>,
  the filter keeps, in their order, exactly the rows whose country is selected, whose
  gender is selected and whose age lies between \<open>a\<close> and \<open>b\<close>, both included.
\<close>

theorem filtered_data_exact:
  "filtered_data data countries genders (a, b) =
     filter (\<lambda>r. Country r \<in> set countries \<and> Gender r \<in> set genders \<and>
                 a \<le> Age r \<and> Age r \<le> b) data"
  by (simp add: filtered_data_filter)

text \<open>
  Claim C3. With both selector lists empty the filter selects no row, whatever the table
  and the age range, and the run shows the no-data warning and nothing else.
\<close>

theorem empty_selectors_select_none:
  "filtered_data data [] [] (a, b) = [] \<and>
   run data [] [] (a, b) = blank_page\<lparr>notice := Some No_data_warning\<rparr>"
  by (simp add: filtered_data_filter run_def empty_def)

text \<open>
  Claim C4. Whenever the filtered table is empty, the run shows the no-data warning and
  stops: no KPI, no group-by summary, no correlation matrix and no age trend is computed,
  and no exception is raised.
\<close>

theorem empty_result_stops:
  "empty (filtered_data data countries genders age_range) \<Longrightarrow>
   run data countries genders age_range =
     \<lparr>notice = Some No_data_warning, kpis = None, choropleth = None, correlation = None,
      trend = None, raised = None\<rparr>"
  by (simp add: run_def blank_page_def)

theorem empty_result_stops_witness:
  "empty (filtered_data scenario [''FR''] [''Male'', ''Female''] (20, 60)) \<and>
   run scenario [''FR''] [''Male'', ''Female''] (20, 60) =
     \<lparr>notice = Some No_data_warning, kpis = None, choropleth = None, correlation = None,
      trend = None, raised = None\<rparr>"
proof -
  have h: "empty (filtered_data scenario [''FR''] [''Male'', ''Female''] (20, 60))"
    by (simp add: filtered_data_filter empty_def scenario_def)
  show ?thesis using h empty_result_stops [OF h] by simp
qed

section \<open>Stress index\<close>

text \<open>
  Claim C5. The stress lookup sends Low to 1, Medium to 2 and High to 3, so it preserves
  the order of the three levels, and every other level has no index: the derived cell is
  missing.
\<close>

theorem stress_index_lookup:
  "map_dict stress_level_mapping [''Low'', ''Medium'', ''High''] = [Some 1, Some 2, Some 3] \<and>
   the (stress_level_mapping ''Low'') < the (stress_level_mapping ''Medium'') \<and>
   the (stress_level_mapping ''Medium'') < the (stress_level_mapping ''High'') \<and>
   (\<forall>l. l \<notin> {''Low'', ''Medium'', ''High''} \<longrightarrow>
        stress_level_mapping l = None \<and> map_dict stress_level_mapping [l] = [None])"
  by (simp add: stress_level_mapping_def map_dict_def)

theorem stress_index_lookup_witness:
  "''Extreme'' \<notin> {''Low'', ''Medium'', ''High''} \<and>
   stress_level_mapping ''Extreme'' = None \<and>
   map_dict stress_level_mapping [''Extreme''] = [None]"
proof -
  have h: "''Extreme'' \<notin> {''Low'', ''Medium'', ''High''}" by simp
  note r = stress_index_lookup [THEN conjunct2, THEN conjunct2, THEN conjunct2, THEN spec,
      THEN mp, OF h]
  show ?thesis using h r by (intro conjI) (erule conjunct1 conjunct2 | assumption)+
qed

section \<open>KPI means\<close>

lemma dropna_Some: "dropna (map (\<lambda>r. Some (f r)) t) = map f t"
  by (induction t) (simp_all add: dropna_def map_filter_simps)

lemma mean_Some: "g \<noteq> [] \<Longrightarrow> mean (map (\<lambda>r. Some (f r)) g) = Some (avg (map f g))"
  by (simp add: mean_def dropna_Some avg_def)

lemma running_total: "foldl (\<lambda>total r. total + f r) acc t = acc + sum_list (map f t)"
  for acc :: real
  by (induction t arbitrary: acc) simp_all

lemma round_to_2_near:
  assumes "r \<in> round_to_2 x"
  shows "of_int \<lfloor>r * 100\<rfloor> = r * 100 \<and> \<bar>r - x\<bar> \<le> 1 / 200"
proof -
  define f where "f = \<lfloor>x * 100\<rfloor>"
  define d where "d = x * 100 - of_int f"
  have d0: "0 \<le> d" and d1: "d < 1" unfolding d_def f_def by linarith+
  from assms have "r = of_int f / 100 \<and> d \<le> 1 / 2 \<or> r = of_int (f + 1) / 100 \<and> 1 / 2 \<le> d"
    unfolding round_to_2_def Let_def f_def [symmetric] d_def [symmetric]
    by (auto split: if_splits)
  then show ?thesis
  proof
    assume a: "r = of_int f / 100 \<and> d \<le> 1 / 2"
    then have "r * 100 = of_int f" by simp
    moreover have "\<bar>r - x\<bar> \<le> 1 / 200" using a d0 unfolding d_def by (simp add: field_simps abs_le_iff)
    ultimately show ?thesis by simp
  next
    assume a: "r = of_int (f + 1) / 100 \<and> 1 / 2 \<le> d"
    then have "r * 100 = of_int (f + 1)" by simp
    moreover have "\<bar>r - x\<bar> \<le> 1 / 200" using a d1 unfolding d_def by (simp add: field_simps abs_le_iff)
    ultimately show ?thesis by (simp del: of_int_add)
  qed
qed

lemma round_to_2_nearest:
  assumes "of_int \<lfloor>r * 100\<rfloor> = r * 100" and "\<bar>r - x\<bar> \<le> 1 / 200"
  shows "r \<in> round_to_2 x"
proof -
  define f where "f = \<lfloor>x * 100\<rfloor>"
  define d where "d = x * 100 - of_int f"
  define k where "k = \<lfloor>r * 100\<rfloor>"
  have d0: "0 \<le> d" and d1: "d < 1" unfolding d_def f_def by linarith+
  have "of_int k = r * 100" unfolding k_def by (rule assms(1))
  then have rk: "r = of_int k / 100" by simp
  from assms(2) have "r - x \<le> 1 / 200" "- (1 / 200) \<le> r - x" by linarith+
  then have b: "of_int k - of_int f - d \<le> 1 / 2" "- (1 / 2) \<le> of_int k - of_int f - d"
    unfolding d_def rk by linarith+
  have cases: "(d < 1 / 2 \<longrightarrow> k = f) \<and> (1 / 2 < d \<longrightarrow> k = f + 1) \<and> (d = 1 / 2 \<longrightarrow> k = f \<or> k = f + 1)"
  proof -
    from b d0 d1 have "real_of_int (k - f) < 3 / 2" "- 1 < real_of_int (k - f)" by simp_all
    then have "k - f < 2" "-1 < k - f" by linarith+
    then have kf: "k = f \<or> k = f + 1" by linarith
    from b have "d < 1 / 2 \<Longrightarrow> real_of_int (k - f) < 1" by simp
    then have 1: "d < 1 / 2 \<Longrightarrow> k = f" using kf by auto
    from b have "1 / 2 < d \<Longrightarrow> 0 < real_of_int (k - f)" by simp
    then have 2: "1 / 2 < d \<Longrightarrow> k = f + 1" using kf by auto
    from 1 2 kf show ?thesis by blast
  qed
  show ?thesis
    unfolding round_to_2_def Let_def f_def [symmetric] d_def [symmetric] rk
    using cases by (auto simp del: of_int_add)
qed

lemma round2_Some_iff:
  "v \<in> round2 (Some x) \<longleftrightarrow>
     (\<exists>r. v = Some r \<and> of_int \<lfloor>r * 100\<rfloor> = r * 100 \<and> \<bar>r - x\<bar> \<le> 1 / 200)"
proof
  assume "v \<in> round2 (Some x)"
  then obtain r where "v = Some r" "r \<in> round_to_2 x" by (auto simp: round2_def)
  with round_to_2_near [of r x] show "\<exists>r. v = Some r \<and> of_int \<lfloor>r * 100\<rfloor> = r * 100 \<and> \<bar>r - x\<bar> \<le> 1 / 200"
    by blast
next
  assume "\<exists>r. v = Some r \<and> of_int \<lfloor>r * 100\<rfloor> = r * 100 \<and> \<bar>r - x\<bar> \<le> 1 / 200"
  then obtain r where "v = Some r" "of_int \<lfloor>r * 100\<rfloor> = r * 100" "\<bar>r - x\<bar> \<le> 1 / 200" by blast
  with round_to_2_nearest [of r x] show "v \<in> round2 (Some x)" by (simp add: round2_def)
qed

lemma round2_four_thirds: "round2 (Some (4 / 3)) = {Some (133 / 100)}"
  by (simp add: round2_def round_to_2_def Let_def)

lemma thirds_rows: "map Coffee_Intake thirds = [1, 1, 2]"
  by (simp add: thirds_def person_def)

lemma kpi_Coffee_Intake_naive:
  "rows df \<noteq> [] \<Longrightarrow>
   kpi_Coffee_Intake df = round2 (Some (naive_mean_Coffee_Intake (rows df)))"
  by (simp add: kpi_Coffee_Intake_def numeric_def mean_Some avg_def naive_mean_Coffee_Intake_def
      running_total)

text \<open>
  The claim C7 as first stated, that the coffee KPI equals the naive mean, fails: on three
  rows with 1, 1 and 2 cups the only value the KPI can show is 1.33 and the naive mean
  is 4/3.
\<close>

theorem kpi_Coffee_Intake_counterexample:
  "kpi_Coffee_Intake (set_Stress_Index (copy (DataFrame thirds))) = {Some (133 / 100)} \<and>
   naive_mean_Coffee_Intake thirds = 4 / 3 \<and>
   Some (naive_mean_Coffee_Intake thirds) \<notin>
     kpi_Coffee_Intake (set_Stress_Index (copy (DataFrame thirds)))"
proof -
  have rs: "rows (set_Stress_Index (copy (DataFrame thirds))) = thirds"
    by (simp add: set_Stress_Index_def copy_def DataFrame_def)
  have ne: "rows (set_Stress_Index (copy (DataFrame thirds))) \<noteq> []"
    unfolding rs by (simp add: thirds_def)
  have n: "naive_mean_Coffee_Intake thirds = 4 / 3"
    by (simp add: naive_mean_Coffee_Intake_def running_total thirds_rows) (simp add: thirds_def)
  have k: "kpi_Coffee_Intake (set_Stress_Index (copy (DataFrame thirds))) = {Some (133 / 100)}"
    unfolding kpi_Coffee_Intake_naive [OF ne] rs n by (rule round2_four_thirds)
  show ?thesis unfolding k n by simp
qed

text \<open>
  Claim C7 (as amended). For every non-empty table the coffee KPI is the naive mean of the
  coffee intake, the running total over the rows divided by their number, rounded to two
  decimals: the values the KPI can show are exactly the whole numbers of hundredths at
  most 0.005 away from that mean. There are two of them only when the mean lies halfway
  between them.
\<close>

theorem kpi_Coffee_Intake_rounded_mean:
  "rows df \<noteq> [] \<Longrightarrow>
   kpi_Coffee_Intake df = round2 (Some (naive_mean_Coffee_Intake (rows df))) \<and>
   (\<forall>v. v \<in> kpi_Coffee_Intake df \<longleftrightarrow>
      (\<exists>r. v = Some r \<and> of_int \<lfloor>r * 100\<rfloor> = r * 100 \<and>
           \<bar>r - naive_mean_Coffee_Intake (rows df)\<bar> \<le> 1 / 200))"
proof -
  assume ne: "rows df \<noteq> []"
  show ?thesis
    unfolding kpi_Coffee_Intake_naive [OF ne]
    by (intro conjI allI refl round2_Some_iff)
qed

lemma naive_halfway: "naive_mean_Coffee_Intake (rows (DataFrame halfway)) = 1225 / 1000"
  by (simp add: naive_mean_Coffee_Intake_def DataFrame_def halfway_def person_def)

theorem kpi_Coffee_Intake_rounded_mean_witness:
  "rows (DataFrame halfway) \<noteq> [] \<and>
   kpi_Coffee_Intake (DataFrame halfway) = {Some (122 / 100), Some (123 / 100)}"
proof -
  have h: "rows (DataFrame halfway) \<noteq> []" by (simp add: DataFrame_def halfway_def)
  note r = kpi_Coffee_Intake_rounded_mean [OF h, THEN conjunct1]
  have "round2 (Some (naive_mean_Coffee_Intake (rows (DataFrame halfway)))) =
      {Some (122 / 100), Some (123 / 100)}"
    unfolding naive_halfway by (simp add: round2_def round_to_2_def Let_def)
  with h r show ?thesis by simp
qed

lemma dropna_Cons: "dropna (c # s) = (case c of None \<Rightarrow> dropna s | Some x \<Rightarrow> x # dropna s)"
  by (simp add: dropna_def map_filter_simps split: option.splits)

lemma dropna_Nil: "dropna [] = []"
  by (simp add: dropna_def map_filter_simps)

lemma map_dict_Cons: "map_dict d (v # col) = map_option real_of_int (d v) # map_dict d col"
  by (simp add: map_dict_def)

lemma stress_cell:
  "map_option real_of_int (stress_level_mapping l) =
     (if l \<in> {''Low'', ''Medium'', ''High''} then Some (level_index l) else None)"
  by (simp add: stress_level_mapping_def level_index_def)

lemma dropna_Stress_Index:
  "dropna (map_dict stress_level_mapping (map Stress_Level t)) =
     map (\<lambda>r. level_index (Stress_Level r)) (recognized t)"
proof (induction t)
  case Nil
  show ?case by (simp add: map_dict_def recognized_def dropna_Nil)
next
  case (Cons r t)
  let ?cell = "map_option real_of_int (stress_level_mapping (Stress_Level r))"
  let ?rest = "dropna (map_dict stress_level_mapping (map Stress_Level t))"
  have lhs: "dropna (map_dict stress_level_mapping (map Stress_Level (r # t))) =
      (case ?cell of None \<Rightarrow> ?rest | Some x \<Rightarrow> x # ?rest)"
    by (simp only: list.map map_dict_Cons dropna_Cons)
  show ?case
  proof (cases "Stress_Level r \<in> {''Low'', ''Medium'', ''High''}")
    case True
    then have rec: "recognized (r # t) = r # recognized t" by (simp add: recognized_def)
    from True have cell: "?cell = Some (level_index (Stress_Level r))"
      by (simp only: stress_cell if_True)
    show ?thesis unfolding lhs cell rec Cons.IH by simp
  next
    case False
    then have rec: "recognized (r # t) = recognized t" by (simp add: recognized_def)
    from False have cell: "?cell = None"
      by (simp only: stress_cell if_False)
    show ?thesis unfolding lhs cell rec Cons.IH by simp
  qed
qed

lemma mean_Stress_Index:
  "mean (map_dict stress_level_mapping (map Stress_Level t)) =
     (if recognized t = [] then None else Some (naive_mean_Stress_Index t))"
  by (simp add: mean_def dropna_Stress_Index naive_mean_Stress_Index_def running_total Let_def)

lemma recognized_empty:
  "recognized t = [] \<longleftrightarrow> (\<forall>r \<in> set t. Stress_Level r \<notin> {''Low'', ''Medium'', ''High''})"
  unfolding recognized_def filter_empty_conv ..

lemma kpi_Stress_Index_set:
  "kpi_Stress_Index (set_Stress_Index df) =
     Inr (round2 (if recognized (rows df) = [] then None else Some (naive_mean_Stress_Index (rows df))))"
  by (simp add: kpi_Stress_Index_def set_Stress_Index_def mean_Stress_Index)

lemma run_not_empty:
  "\<not> empty (filtered_data data countries genders age_range) \<Longrightarrow>
   notice (run data countries genders age_range) = None \<and>
   (\<exists>c s si b.
      kpi_Stress_Index
        (set_Stress_Index (copy (DataFrame (filtered_data data countries genders age_range)))) =
        Inr si \<and>
      kpis (run data countries genders age_range) = Some (c, s, si, b))"
  by (simp add: run_def Let_def blank_page_def kpi_Stress_Index_def set_Stress_Index_def)

text \<open>
  Claim C10 (as amended). When at least one row has a recognised stress level, the stress
  KPI is the mean of the indices of the recognised rows only, rounded to two decimals (a
  whole number of hundredths at most 0.005 away from that mean): the rows with any other
  level are left out of the average. When no row has a recognised level the KPI is
  missing. In both cases the page of a run on a non-empty selection carries that KPI and
  no notice.
\<close>

theorem kpi_Stress_Index_skips_unrecognized:
  "((\<exists>r \<in> set (rows df). Stress_Level r \<in> {''Low'', ''Medium'', ''High''}) \<longrightarrow>
      kpi_Stress_Index (set_Stress_Index df) =
        Inr (round2 (Some (naive_mean_Stress_Index (rows df)))) \<and>
      (\<forall>v. v \<in> round2 (Some (naive_mean_Stress_Index (rows df))) \<longleftrightarrow>
         (\<exists>r. v = Some r \<and> of_int \<lfloor>r * 100\<rfloor> = r * 100 \<and>
              \<bar>r - naive_mean_Stress_Index (rows df)\<bar> \<le> 1 / 200))) \<and>
   ((\<forall>r \<in> set (rows df). Stress_Level r \<notin> {''Low'', ''Medium'', ''High''}) \<longrightarrow>
      kpi_Stress_Index (set_Stress_Index df) = Inr {None}) \<and>
   (\<not> empty (filtered_data data countries genders age_range) \<longrightarrow>
      notice (run data countries genders age_range) = None \<and>
      (\<exists>c s si b.
         kpi_Stress_Index
           (set_Stress_Index (copy (DataFrame (filtered_data data countries genders age_range)))) =
           Inr si \<and>
         kpis (run data countries genders age_range) = Some (c, s, si, b)))"
proof (intro conjI impI allI)
  assume "\<exists>r \<in> set (rows df). Stress_Level r \<in> {''Low'', ''Medium'', ''High''}"
  then have "recognized (rows df) \<noteq> []" unfolding recognized_empty by simp
  then show "kpi_Stress_Index (set_Stress_Index df) =
        Inr (round2 (Some (naive_mean_Stress_Index (rows df))))"
    by (simp only: kpi_Stress_Index_set if_False)
next
  fix v
  show "v \<in> round2 (Some (naive_mean_Stress_Index (rows df))) \<longleftrightarrow>
         (\<exists>r. v = Some r \<and> of_int \<lfloor>r * 100\<rfloor> = r * 100 \<and>
              \<bar>r - naive_mean_Stress_Index (rows df)\<bar> \<le> 1 / 200)"
    by (rule round2_Some_iff)
next
  assume "\<forall>r \<in> set (rows df). Stress_Level r \<notin> {''Low'', ''Medium'', ''High''}"
  then have "recognized (rows df) = []" unfolding recognized_empty .
  then show "kpi_Stress_Index (set_Stress_Index df) = Inr {None}"
    by (simp only: kpi_Stress_Index_set if_True) (simp add: round2_def)
next
  assume ne: "\<not> empty (filtered_data data countries genders age_range)"
  from run_not_empty [OF ne] show "notice (run data countries genders age_range) = None" ..
  from run_not_empty [OF ne] show "\<exists>c s si b.
         kpi_Stress_Index
           (set_Stress_Index (copy (DataFrame (filtered_data data countries genders age_range)))) =
           Inr si \<and>
         kpis (run data countries genders age_range) = Some (c, s, si, b)" ..
qed

lemma recognized_mixed:
  "recognized mixed = [person 30 1 ''Low'', person 31 1 ''Low'', person 32 2 ''Medium'']"
  by (simp add: recognized_def mixed_def person_def)

lemma naive_mixed: "naive_mean_Stress_Index mixed = 4 / 3"
  unfolding naive_mean_Stress_Index_def recognized_mixed
  by (simp add: person_def level_index_def)

lemma filtered_data_mixed: "filtered_data mixed [''US''] [''Male''] (20, 60) = mixed"
  by (simp add: filtered_data_filter mixed_def person_def)

theorem kpi_Stress_Index_skips_unrecognized_witness:
  "(\<exists>r \<in> set (rows (DataFrame mixed)). Stress_Level r \<in> {''Low'', ''Medium'', ''High''}) \<and>
   kpi_Stress_Index (set_Stress_Index (DataFrame mixed)) = Inr {Some (133 / 100)} \<and>
   \<not> empty (filtered_data mixed [''US''] [''Male''] (20, 60)) \<and>
   notice (run mixed [''US''] [''Male''] (20, 60)) = None"
proof -
  have h: "\<exists>r \<in> set (rows (DataFrame mixed)). Stress_Level r \<in> {''Low'', ''Medium'', ''High''}"
    by (simp add: DataFrame_def mixed_def person_def)
  have ne: "\<not> empty (filtered_data mixed [''US''] [''Male''] (20, 60))"
    unfolding filtered_data_mixed by (simp add: empty_def mixed_def)
  have rs: "rows (DataFrame mixed) = mixed" by (simp add: DataFrame_def)
  note k = kpi_Stress_Index_skips_unrecognized [of "DataFrame mixed", THEN conjunct1, THEN mp,
      OF h, THEN conjunct1]
  note n = kpi_Stress_Index_skips_unrecognized [of _ mixed "[''US'']" "[''Male'']" "(20, 60)",
      THEN conjunct2, THEN conjunct2, THEN mp, OF ne, THEN conjunct1]
  from k have k': "kpi_Stress_Index (set_Stress_Index (DataFrame mixed)) = Inr {Some (133 / 100)}"
    unfolding rs naive_mixed round2_four_thirds .
  from h k' ne n show ?thesis by (iprover intro: conjI)
qed

text \<open>
  The claim C10 as first stated, that the stress KPI equals the mean of the recognised
  indices, fails: with levels Low, Low, Medium and one unrecognised level the only value
  the KPI can show is 1.33 and the mean of the three recognised indices is 4/3.
\<close>

theorem kpi_Stress_Index_counterexample:
  "kpi_Stress_Index (set_Stress_Index (copy (DataFrame mixed))) = Inr {Some (133 / 100)} \<and>
   naive_mean_Stress_Index mixed = 4 / 3 \<and>
   kpi_Stress_Index (set_Stress_Index (copy (DataFrame mixed))) \<noteq>
     Inr {Some (naive_mean_Stress_Index mixed)}"
proof -
  have rs: "rows (copy (DataFrame mixed)) = mixed"
    by (simp add: copy_def DataFrame_def)
  have ne: "recognized mixed \<noteq> []" by (simp add: recognized_mixed)
  have k: "kpi_Stress_Index (set_Stress_Index (copy (DataFrame mixed))) = Inr {Some (133 / 100)}"
    using ne by (simp only: kpi_Stress_Index_set rs if_False naive_mixed round2_four_thirds)
  show ?thesis by (simp add: k naive_mixed)
qed

section \<open>Activity bins\<close>

lemma activity_bin_cases:
  "activity_bin h =
     (if h \<le> 0 then None else if h \<le> 2 then Some ''0-2h'' else if h \<le> 4 then Some ''2-4h''
      else if h \<le> 6 then Some ''4-6h'' else if h \<le> 24 then Some ''6h+'' else None)"
  by (simp add: activity_bin_def cut_def Let_def)

text \<open>
  The claim C2 as first stated puts a breakpoint in the upper bin; the code puts 2 hours
  in the bin labelled 0-2h.
\<close>

theorem activity_bin_breakpoint_counterexample:
  "activity_bin 2 = Some ''0-2h'' \<and> activity_bin 2 \<noteq> Some ''2-4h''"
  by (simp add: activity_bin_cases)

text \<open>
  Claim C2 (as amended). The bins are closed on the right: more than 0 and at most 2 hours
  is 0-2h, more than 2 and at most 4 is 2-4h, more than 4 and at most 6 is 4-6h, more than
  6 and at most 24 is 6h+; a value below 0 or above 24 has no bin; 23.9 hours is 6h+.
\<close>

theorem activity_bin_right_closed:
  "(0 < h \<and> h \<le> 2 \<longrightarrow> activity_bin h = Some ''0-2h'') \<and>
   (2 < h \<and> h \<le> 4 \<longrightarrow> activity_bin h = Some ''2-4h'') \<and>
   (4 < h \<and> h \<le> 6 \<longrightarrow> activity_bin h = Some ''4-6h'') \<and>
   (6 < h \<and> h \<le> 24 \<longrightarrow> activity_bin h = Some ''6h+'') \<and>
   (h < 0 \<or> 24 < h \<longrightarrow> activity_bin h = None) \<and>
   activity_bin (239 / 10) = Some ''6h+''"
  by (simp add: activity_bin_cases)

theorem activity_bin_right_closed_witness:
  "(2 < (4::real) \<and> (4::real) \<le> 4) \<and> activity_bin 4 = Some ''2-4h''"
proof -
  have h: "2 < (4::real) \<and> (4::real) \<le> 4" by simp
  note r = activity_bin_right_closed [of 4, THEN conjunct2, THEN conjunct1, THEN mp, OF h]
  show ?thesis using h r by (intro conjI) (erule conjunct1 conjunct2 | assumption)+
qed

section \<open>The source frame\<close>

lemma source_kept_load: "source_kept csv (load_data csv)"
  by (simp add: source_kept_def load_data_def)

lemma source_kept_bind_new: "source_kept csv s \<Longrightarrow> source_kept csv (bind_new df s)"
  by (auto simp: source_kept_def bind_new_def)

lemma source_kept_exec: "source_kept csv s \<Longrightarrow> exec c s = Inr s' \<Longrightarrow> source_kept csv s'"
proof (cases c)
  case (Filter cs gs ar)
  assume "source_kept csv s" "exec c s = Inr s'"
  with Filter show ?thesis
    by (auto simp: source_kept_bind_new split: option.splits)
next
  case Copy
  assume "source_kept csv s" "exec c s = Inr s'"
  with Copy show ?thesis
    by (auto simp: with_filtered_def source_kept_bind_new split: option.splits)
next
  case Set_Stress_Index
  assume "source_kept csv s" "exec c s = Inr s'"
  with Set_Stress_Index show ?thesis
    by (auto simp: with_filtered_def source_kept_def split: option.splits)
next
  case Set_Activity_Bins
  assume "source_kept csv s" "exec c s = Inr s'"
  with Set_Activity_Bins show ?thesis
    by (auto simp: with_filtered_def source_kept_def split: option.splits)
qed (auto simp: with_filtered_def split: option.splits)

lemma source_kept_exec_all: "source_kept csv s \<Longrightarrow> source_kept csv (fst (exec_all cs s))"
proof (induction cs arbitrary: s)
  case Nil
  then show ?case by simp
next
  case (Cons c cs)
  show ?case
  proof (cases "exec c s")
    case (Inl e)
    with Cons.prems show ?thesis by simp
  next
    case (Inr s')
    with Cons.prems have "source_kept csv s'" by (blast intro: source_kept_exec)
    with Cons.IH Inr show ?thesis by simp
  qed
qed

lemma exec_new_object:
  "exec (Filter countries genders age_range) s = Inr s' \<or> exec Copy s = Inr s' \<Longrightarrow>
     var_filtered_data s' = Some (fresh s) \<and> fresh s' = Suc (fresh s)"
  by (auto simp: bind_new_def with_filtered_def split: option.splits)

lemma exec_in_place:
  "exec Set_Stress_Index s = Inr s' \<or> exec Set_Activity_Bins s = Inr s' \<Longrightarrow>
     var_filtered_data s' = var_filtered_data s \<and> fresh s' = fresh s"
  by (auto simp: with_filtered_def split: option.splits)

lemma filtered_data_us_men:
  "filtered_data scenario [''US''] [''Male''] (20, 60) = [scenario ! 0]"
  by (simp add: filtered_data_filter scenario_def)

text \<open>
  The claim C8 as first stated has every operation produce a new table. The activity
  binning does not: after filtering, copying and deriving the stress index, it builds no
  object, \<open>filtered_data\<close> refers to the same object as before, and that object has
  changed.
\<close>

theorem derivation_in_place_counterexample:
  "fresh (fst (exec_all [Filter [''US''] [''Male''] (20, 60), Copy, Set_Stress_Index,
                         Set_Activity_Bins] (load_data scenario))) =
   fresh (fst (exec_all [Filter [''US''] [''Male''] (20, 60), Copy, Set_Stress_Index]
                        (load_data scenario))) \<and>
   var_filtered_data (fst (exec_all [Filter [''US''] [''Male''] (20, 60), Copy,
                         Set_Stress_Index, Set_Activity_Bins] (load_data scenario))) = Some 2 \<and>
   var_filtered_data (fst (exec_all [Filter [''US''] [''Male''] (20, 60), Copy,
                         Set_Stress_Index] (load_data scenario))) = Some 2 \<and>
   heap (fst (exec_all [Filter [''US''] [''Male''] (20, 60), Copy, Set_Stress_Index,
                        Set_Activity_Bins] (load_data scenario))) 2 \<noteq>
   heap (fst (exec_all [Filter [''US''] [''Male''] (20, 60), Copy, Set_Stress_Index]
                       (load_data scenario))) 2"
  by (simp add: filtered_data_us_men load_data_def bind_new_def with_filtered_def copy_def
      set_Stress_Index_def set_Activity_Bins_def DataFrame_def)

text \<open>
  Claim C8 (as amended). After any sequence of filtering, copying, column derivations and
  summaries, run from the freshly loaded state until one of them raises, the variable
  \<open>data\<close> refers to the same object, that object holds the table as it was loaded, and
  \<open>filtered_data\<close> does not refer to it. Filtering and copying bind \<open>filtered_data\<close>
  to a new object; the stress-index derivation and the activity binning build no object
  and leave \<open>filtered_data\<close> bound as it was.
\<close>

theorem source_never_mutated:
  "heap (fst (exec_all cs (load_data csv))) (var_data (fst (exec_all cs (load_data csv)))) =
     Some (DataFrame csv) \<and>
   var_data (fst (exec_all cs (load_data csv))) = var_data (load_data csv) \<and>
   var_filtered_data (fst (exec_all cs (load_data csv))) \<noteq> Some (var_data (load_data csv)) \<and>
   (exec (Filter countries genders age_range) s = Inr s' \<or> exec Copy s = Inr s' \<longrightarrow>
      var_filtered_data s' = Some (fresh s) \<and> fresh s' = Suc (fresh s)) \<and>
   (exec Set_Stress_Index s = Inr s' \<or> exec Set_Activity_Bins s = Inr s' \<longrightarrow>
      var_filtered_data s' = var_filtered_data s \<and> fresh s' = fresh s)"
proof -
  have vd: "var_data (load_data csv) = 0" by (simp add: load_data_def)
  have "source_kept csv (fst (exec_all cs (load_data csv)))"
    by (rule source_kept_exec_all [OF source_kept_load])
  then have "heap (fst (exec_all cs (load_data csv))) (var_data (fst (exec_all cs (load_data csv)))) =
     Some (DataFrame csv) \<and>
   var_data (fst (exec_all cs (load_data csv))) = var_data (load_data csv) \<and>
   var_filtered_data (fst (exec_all cs (load_data csv))) \<noteq> Some (var_data (load_data csv))"
    unfolding source_kept_def vd by metis
  with exec_new_object [of countries genders age_range s s'] exec_in_place [of s s']
  show ?thesis by blast
qed

theorem source_never_mutated_witness:
  "(exec (Filter [''US''] [''Male''] (20, 60)) (load_data scenario) =
      Inr (bind_new (DataFrame [scenario ! 0]) (load_data scenario)) \<or>
    exec Copy (load_data scenario) =
      Inr (bind_new (DataFrame [scenario ! 0]) (load_data scenario))) \<and>
   var_filtered_data (bind_new (DataFrame [scenario ! 0]) (load_data scenario)) =
     Some (fresh (load_data scenario)) \<and>
   fresh (bind_new (DataFrame [scenario ! 0]) (load_data scenario)) =
     Suc (fresh (load_data scenario))"
proof -
  have h: "exec (Filter [''US''] [''Male''] (20, 60)) (load_data scenario) =
      Inr (bind_new (DataFrame [scenario ! 0]) (load_data scenario)) \<or>
    exec Copy (load_data scenario) =
      Inr (bind_new (DataFrame [scenario ! 0]) (load_data scenario))"
    by (simp add: filtered_data_us_men load_data_def DataFrame_def)
  note r = source_never_mutated [of _ _ "[''US'']" "[''Male'']" "(20, 60)" "load_data scenario"
      "bind_new (DataFrame [scenario ! 0]) (load_data scenario)",
      THEN conjunct2, THEN conjunct2, THEN conjunct2, THEN conjunct1, THEN mp, OF h]
  show ?thesis using h r by (intro conjI) (erule conjunct1 conjunct2 | assumption)+
qed

section \<open>Age trend\<close>

lemma insert_group_keys:
  "fst ` set (insert_group k v gs) = insert k (fst ` set gs)"
  by (induction k v gs rule: insert_group.induct) auto

lemma insert_group_sorted:
  "sorted_wrt (<) (map fst gs) \<Longrightarrow> sorted_wrt (<) (map fst (insert_group k v gs))"
proof (induction k v gs rule: insert_group.induct)
  case (1 k v)
  then show ?case by simp
next
  case (2 k v k' vs gs)
  from "2.prems" have above: "\<forall>x \<in> fst ` set gs. k' < x" and rest: "sorted_wrt (<) (map fst gs)"
    by simp_all
  show ?case
  proof (cases "k = k'")
    case True
    with "2.prems" show ?thesis by simp
  next
    case False
    show ?thesis
    proof (cases "k < k'")
      case True
      with False above rest show ?thesis by auto
    next
      case gt: False
      with False have "k' < k" by simp
      with above have "\<forall>x \<in> fst ` set (insert_group k v gs). k' < x"
        by (simp add: insert_group_keys)
      moreover from "2.IH" False gt rest have "sorted_wrt (<) (map fst (insert_group k v gs))"
        by simp
      ultimately show ?thesis using False gt by simp
    qed
  qed
qed


lemma insert_group_member:
  "sorted_wrt (<) (map fst gs) \<Longrightarrow> (k', g') \<in> set (insert_group k v gs) \<Longrightarrow>
     (k' \<noteq> k \<and> (k', g') \<in> set gs) \<or>
     (k' = k \<and> k \<notin> fst ` set gs \<and> g' = [v]) \<or>
     (k' = k \<and> (\<exists>g. (k, g) \<in> set gs \<and> g' = g @ [v]))"
proof (induction k v gs rule: insert_group.induct)
  case (1 k v)
  then show ?case by simp
next
  case (2 k v k'' vs gs)
  from "2.prems"(1) have above: "\<forall>x \<in> fst ` set gs. k'' < x" and rest: "sorted_wrt (<) (map fst gs)"
    by simp_all
  show ?case
  proof (cases "k = k''")
    case True
    with "2.prems"(2) above show ?thesis by auto
  next
    case False
    show ?thesis
    proof (cases "k < k''")
      case True
      with above have notin: "k \<notin> fst ` set gs" by auto
      then have "\<forall>g. (k, g) \<notin> set gs" by force
      with notin True False "2.prems"(2) show ?thesis by auto
    next
      case gt: False
      with False "2.prems"(2) have "(k', g') = (k'', vs) \<or> (k', g') \<in> set (insert_group k v gs)"
        by simp
      then show ?thesis
      proof
        assume "(k', g') = (k'', vs)"
        with False show ?thesis by simp
      next
        assume "(k', g') \<in> set (insert_group k v gs)"
        from "2.IH" [OF False gt rest this] False show ?thesis by auto
      qed
    qed
  qed
qed

lemma groupby_snoc: "groupby key (t @ [r]) = insert_group (key r) r (groupby key t)"
  by (simp add: groupby_def)

lemma groupby_sorted: "sorted_wrt (<) (map fst (groupby key t))"
proof (induction t rule: rev_induct)
  case Nil
  then show ?case by (simp add: groupby_def)
next
  case (snoc r t)
  then show ?case by (simp add: groupby_snoc insert_group_sorted)
qed

lemma groupby_keys: "fst ` set (groupby key t) = key ` set t"
proof (induction t rule: rev_induct)
  case Nil
  then show ?case by (simp add: groupby_def)
next
  case (snoc r t)
  then show ?case by (simp add: groupby_snoc insert_group_keys)
qed

lemma groupby_group:
  "(k, g) \<in> set (groupby key t) \<Longrightarrow> g = filter (\<lambda>r. key r = k) t"
proof (induction t arbitrary: k g rule: rev_induct)
  case Nil
  then show ?case by (simp add: groupby_def)
next
  case (snoc r t)
  from snoc.prems have mem: "(k, g) \<in> set (insert_group (key r) r (groupby key t))"
    by (simp add: groupby_snoc)
  from insert_group_member [OF groupby_sorted mem]
  consider (other) "k \<noteq> key r" "(k, g) \<in> set (groupby key t)"
    | (new) "k = key r" "key r \<notin> fst ` set (groupby key t)" "g = [r]"
    | (old) g0 where "k = key r" "(key r, g0) \<in> set (groupby key t)" "g = g0 @ [r]"
    by blast
  then show ?case
  proof cases
    case other
    with snoc.IH show ?thesis by auto
  next
    case new
    from new(2) have "key r \<notin> key ` set t" by (simp add: groupby_keys)
    then have "filter (\<lambda>x. key x = key r) t = []"
      unfolding filter_empty_conv by (metis imageI)
    with new show ?thesis by simp
  next
    case old
    from snoc.IH [OF old(2)] old show ?thesis by simp
  qed
qed

text \<open>
  Claim C9. The age trend has its rows in strictly ascending order of age, one row for
  each age that occurs in the table and no other, and each row holds the mean coffee
  intake and the mean sleep hours of the rows of that age.
\<close>

theorem age_trend_by_age:
  "sorted_wrt (<) (map fst (age_trend df)) \<and>
   set (map fst (age_trend df)) = Age ` set (rows df) \<and>
   (\<forall>(a, c, s) \<in> set (age_trend df).
      c = Some (avg (map Coffee_Intake (filter (\<lambda>r. Age r = a) (rows df)))) \<and>
      s = Some (avg (map Sleep_Hours (filter (\<lambda>r. Age r = a) (rows df)))))"
proof (intro conjI)
  have fst_eq: "map fst (age_trend df) = map fst (groupby Age (rows df))"
    by (simp add: age_trend_def case_prod_unfold comp_def)
  show "sorted_wrt (<) (map fst (age_trend df))"
    by (simp only: fst_eq groupby_sorted)
  show "set (map fst (age_trend df)) = Age ` set (rows df)"
    using groupby_keys [of Age "rows df"] by (simp only: fst_eq set_map)
  show "\<forall>(a, c, s) \<in> set (age_trend df).
      c = Some (avg (map Coffee_Intake (filter (\<lambda>r. Age r = a) (rows df)))) \<and>
      s = Some (avg (map Sleep_Hours (filter (\<lambda>r. Age r = a) (rows df))))"
  proof (clarify)
    fix a c s
    assume "(a, c, s) \<in> set (age_trend df)"
    then obtain g where g: "(a, g) \<in> set (groupby Age (rows df))"
      and c: "c = mean (map (\<lambda>r. Some (Coffee_Intake r)) g)"
      and s: "s = mean (map (\<lambda>r. Some (Sleep_Hours r)) g)"
      by (auto simp: age_trend_def)
    from g have geq: "g = filter (\<lambda>r. Age r = a) (rows df)" by (rule groupby_group)
    from g have "a \<in> Age ` set (rows df)"
      using groupby_keys [of Age "rows df"] by force
    then have "g \<noteq> []" unfolding geq by (auto simp: filter_empty_conv)
    with c s geq show "c = Some (avg (map Coffee_Intake (filter (\<lambda>r. Age r = a) (rows df)))) \<and>
      s = Some (avg (map Sleep_Hours (filter (\<lambda>r. Age r = a) (rows df))))"
      by (simp add: mean_Some)
  qed
qed

lemma age_trend_scenario:
  "age_trend (DataFrame scenario) = [(25, Some 2, Some 8), (40, Some 3, Some 7), (70, Some 4, Some 6)]"
  by (simp add: age_trend_def groupby_def DataFrame_def scenario_def mean_def dropna_def map_filter_simps)

theorem age_trend_by_age_witness:
  "(25, Some 2, Some 8) \<in> set (age_trend (DataFrame scenario)) \<and>
   Some 2 = Some (avg (map Coffee_Intake (filter (\<lambda>r. Age r = 25) (rows (DataFrame scenario))))) \<and>
   Some 8 = Some (avg (map Sleep_Hours (filter (\<lambda>r. Age r = 25) (rows (DataFrame scenario)))))"
proof -
  have h: "(25, Some 2, Some 8) \<in> set (age_trend (DataFrame scenario))"
    by (simp add: age_trend_scenario)
  from age_trend_by_age [of "DataFrame scenario"] have
    "\<forall>(a, c, s) \<in> set (age_trend (DataFrame scenario)).
      c = Some (avg (map Coffee_Intake (filter (\<lambda>r. Age r = a) (rows (DataFrame scenario))))) \<and>
      s = Some (avg (map Sleep_Hours (filter (\<lambda>r. Age r = a) (rows (DataFrame scenario)))))"
    by (elim conjE)
  from bspec [OF this h] h show ?thesis by simp
qed

section \<open>Correlation matrix\<close>

lemma valid_pairs_swap: "valid_pairs ys xs = map prod.swap (valid_pairs xs ys)"
  by (induction xs ys rule: valid_pairs.induct) simp_all

lemma codev_swap: "codev (map prod.swap ps) = codev ps"
  by (simp add: codev_def comp_def case_prod_unfold mult.commute)

lemma pearson_sym: "pearson ys xs = pearson xs ys"
proof -
  let ?ps = "valid_pairs xs ys"
  have f: "map fst (valid_pairs ys xs) = map snd ?ps"
    and s: "map snd (valid_pairs ys xs) = map fst ?ps"
    and c: "codev (valid_pairs ys xs) = codev ?ps"
    and e: "valid_pairs ys xs = [] \<longleftrightarrow> ?ps = []"
    by (simp_all add: valid_pairs_swap [of ys xs] codev_swap comp_def)
  have m: "ssqdm (map snd ?ps) * ssqdm (map fst ?ps) = ssqdm (map fst ?ps) * ssqdm (map snd ?ps)"
    by (rule mult.commute)
  show ?thesis
    unfolding pearson_def Let_def f s c e m ..
qed

lemma valid_pairs_same: "valid_pairs c c = map (\<lambda>x. (x, x)) (dropna c)"
proof (induction c)
  case Nil
  then show ?case by (simp add: dropna_def map_filter_simps)
next
  case (Cons a c)
  then show ?case by (cases a) (simp_all add: dropna_def map_filter_simps)
qed

lemma codev_same: "codev (map (\<lambda>x. (x, x)) v) = ssqdm v"
  by (simp add: codev_def ssqdm_def comp_def Let_def)

lemma sum_list_pos:
  fixes f :: "'a \<Rightarrow> real"
  assumes "\<forall>x \<in> set v. 0 \<le> f x" and "a \<in> set v" and "0 < f a"
  shows "0 < sum_list (map f v)"
proof -
  from assms(2) obtain v1 v2 where v: "v = v1 @ a # v2" by (auto dest: split_list)
  have "0 \<le> sum_list (map f v1)" using assms(1) v by (intro sum_list_nonneg) auto
  moreover have "0 \<le> sum_list (map f v2)" using assms(1) v by (intro sum_list_nonneg) auto
  ultimately show ?thesis using assms(3) v by simp
qed

lemma ssqdm_pos:
  assumes "x \<in> set v" "y \<in> set v" "x \<noteq> y"
  shows "0 < ssqdm v"
proof -
  define m where "m = avg v"
  from assms(3) have "x \<noteq> m \<or> y \<noteq> m" by auto
  then obtain a where a: "a \<in> set v" "a \<noteq> m" using assms(1,2) by auto
  have "0 < sum_list (map (\<lambda>x. (x - m) * (x - m)) v)"
  proof (rule sum_list_pos)
    show "\<forall>x \<in> set v. 0 \<le> (x - m) * (x - m)" by simp
    show "a \<in> set v" by (rule a(1))
    from a(2) have "0 < (a - m)\<^sup>2" by simp
    then show "0 < (a - m) * (a - m)" by (simp add: power2_eq_square)
  qed
  then show ?thesis by (simp add: ssqdm_def m_def Let_def)
qed

lemma pearson_diag: "non_constant c \<Longrightarrow> pearson c c = Some 1"
proof -
  assume "non_constant c"
  then obtain x y where xy: "x \<in> set (dropna c)" "y \<in> set (dropna c)" "x \<noteq> y"
    by (auto simp: non_constant_def)
  then have pos: "0 < ssqdm (dropna c)" by (rule ssqdm_pos)
  from xy(1) have ne: "dropna c \<noteq> []" by auto
  have fst_eq: "map fst (map (\<lambda>x. (x, x)) (dropna c)) = dropna c"
    and snd_eq: "map snd (map (\<lambda>x. (x, x)) (dropna c)) = dropna c"
    by (simp_all add: comp_def)
  from pos have "sqrt (ssqdm (dropna c) * ssqdm (dropna c)) = ssqdm (dropna c)" by simp
  with pos ne show ?thesis
    by (simp add: pearson_def valid_pairs_same codev_same fst_eq snd_eq Let_def del: map_map)
qed

text \<open>
  Claim C6. When each of the five columns coffee intake, sleep hours, stress index, heart
  rate and BMI varies, the correlation matrix is a five by five matrix that is symmetric
  and has 1 in every diagonal entry.
\<close>

theorem corr_symmetric_unit_diagonal:
  assumes cols: "corr_columns df = Inr cols" and var: "\<forall>c \<in> set cols. non_constant c"
  shows "\<exists>M. corr df = Inr M \<and> length M = 5 \<and>
           (\<forall>i < 5. length (M ! i) = 5 \<and> M ! i ! i = Some 1 \<and> (\<forall>j < 5. M ! i ! j = M ! j ! i))"
proof -
  from cols have len: "length cols = 5"
    by (auto simp: corr_columns_def split: option.splits)
  let ?M = "map (\<lambda>c. map (\<lambda>d. pearson c d) cols) cols"
  have M: "corr df = Inr ?M" by (simp add: corr_def cols)
  have entry: "?M ! i ! j = pearson (cols ! i) (cols ! j)" if "i < 5" "j < 5" for i j
    using that len by simp
  have "length (?M ! i) = 5 \<and> ?M ! i ! i = Some 1 \<and> (\<forall>j < 5. ?M ! i ! j = ?M ! j ! i)" if i: "i < 5" for i
  proof (intro conjI allI impI)
    show "length (?M ! i) = 5" using i len by simp
    from i len have "cols ! i \<in> set cols" by simp
    with var have "non_constant (cols ! i)" by blast
    then show "?M ! i ! i = Some 1" by (simp only: entry [OF i i] pearson_diag)
    fix j :: nat assume j: "j < 5"
    show "?M ! i ! j = ?M ! j ! i"
      by (simp only: entry [OF i j] entry [OF j i] pearson_sym [of "cols ! i"])
  qed
  with M len show ?thesis by auto
qed

lemma corr_columns_scenario:
  "corr_columns (set_Stress_Index (copy (DataFrame scenario))) =
     Inr [[Some 2, Some 4, Some 3], [Some 8, Some 6, Some 7], [Some 1, Some 3, Some 2],
          [Some 60, Some 80, Some 70], [Some 22, Some 27, Some 24]]"
  by (simp add: corr_columns_def set_Stress_Index_def copy_def DataFrame_def scenario_def
      numeric_def map_dict_def stress_level_mapping_def)

lemma non_constant_scenario:
  "non_constant [Some 2, Some 4, Some 3] \<and> non_constant [Some 8, Some 6, Some 7] \<and>
   non_constant [Some 1, Some 3, Some 2] \<and> non_constant [Some 60, Some 80, Some 70] \<and>
   non_constant [Some 22, Some 27, Some 24]"
  by (simp add: non_constant_def dropna_def map_filter_simps) blast

theorem corr_symmetric_unit_diagonal_witness:
  "corr_columns (set_Stress_Index (copy (DataFrame scenario))) =
     Inr [[Some 2, Some 4, Some 3], [Some 8, Some 6, Some 7], [Some 1, Some 3, Some 2],
          [Some 60, Some 80, Some 70], [Some 22, Some 27, Some 24]] \<and>
   (non_constant [Some 2, Some 4, Some 3] \<and> non_constant [Some 8, Some 6, Some 7] \<and>
    non_constant [Some 1, Some 3, Some 2] \<and> non_constant [Some 60, Some 80, Some 70] \<and>
    non_constant [Some 22, Some 27, Some 24]) \<and>
   (\<exists>M. corr (set_Stress_Index (copy (DataFrame scenario))) = Inr M \<and> length M = 5 \<and>
           (\<forall>i < 5. length (M ! i) = 5 \<and> M ! i ! i = Some 1 \<and> (\<forall>j < 5. M ! i ! j = M ! j ! i)))"
proof -
  have var: "\<forall>c \<in> set [[Some 2, Some 4, Some 3], [Some 8, Some 6, Some 7],
      [Some 1, Some 3, Some 2], [Some 60, Some 80, Some 70], [Some 22, Some 27, Some 24]].
      non_constant c"
    using non_constant_scenario by simp
  note diag = corr_symmetric_unit_diagonal [OF corr_columns_scenario var]
  from corr_columns_scenario non_constant_scenario diag show ?thesis
    by (iprover intro: conjI)
qed

end
